theory Spec2Isabelle
  imports Main
begin

section \<open>The construct tree of CdkAwsApiGatewaySecurityStack\<close>

text \<open>
  The source file \<^verbatim>\<open>lib/cdk-aws-api-gateway-security-stack.ts\<close> is one constructor. It
  creates objects with \<^verbatim>\<open>new\<close> and with the factory methods \<^verbatim>\<open>addResourceServer\<close>,
  \<^verbatim>\<open>addDomain\<close> and \<^verbatim>\<open>addRoutes\<close>, and hands some of them to later ones.

  Every object created is appended to a list, the construct tree, and its position in
  that list is its identity (a reference). An object that is handed on for its identity
  only (the user pool, the clients, the authorizer, the functions, the API) is a
  reference; the resource server and the scopes, whose fields are read by
  \<^verbatim>\<open>OAuthScope.resourceServer\<close>, are handed on as values. No field of an object is
  assigned after its creation, so values and references never disagree.

  Property records carry the properties the source sets, under the source's names, and
  those optional properties whose absence a property of the stack depends on (as
  \<open>None\<close>). The validation that the library runs inside its own constructors is not part
  of the source file and is not modelled.
\<close>

subsection \<open>Enumerations of the library used by the source\<close>

datatype RemovalPolicy = DESTROY | RETAIN | SNAPSHOT

datatype AccountRecovery =
    EMAIL_AND_PHONE_WITHOUT_MFA
  | PHONE_WITHOUT_MFA_AND_EMAIL
  | EMAIL_ONLY
  | PHONE_ONLY_WITHOUT_MFA
  | PHONE_AND_EMAIL
  | NONE

datatype UserPoolClientIdentityProvider = APPLE | FACEBOOK | GOOGLE | AMAZON | COGNITO

datatype Runtime = NODEJS_12_X | NODEJS_14_X | NODEJS_16_X

datatype HttpMethod = ANY | DELETE | GET | HEAD | OPTIONS | PATCH | POST | PUT

fun HttpMethod_string :: "HttpMethod \<Rightarrow> string" where
  "HttpMethod_string ANY = ''ANY''"
| "HttpMethod_string DELETE = ''DELETE''"
| "HttpMethod_string GET = ''GET''"
| "HttpMethod_string HEAD = ''HEAD''"
| "HttpMethod_string OPTIONS = ''OPTIONS''"
| "HttpMethod_string PATCH = ''PATCH''"
| "HttpMethod_string POST = ''POST''"
| "HttpMethod_string PUT = ''PUT''"

subsection \<open>Property records\<close>

type_synonym ref = nat

record Environment =
  account :: "string option"
  region :: "string option"

record StackProps =
  stackName :: "string option"
  stack_description :: "string option"
  env :: "Environment option"
  terminationProtection :: "bool option"

record SignInAliases =
  username :: "bool option"
  email :: "bool option"
  phone :: "bool option"
  preferredUsername :: "bool option"

record AutoVerifiedAttrs =
  av_email :: "bool option"
  av_phone :: "bool option"

record PasswordPolicy =
  minLength :: nat
  requireLowercase :: bool
  requireDigits :: bool
  requireUppercase :: bool
  requireSymbols :: bool

record UserPoolProps =
  userPoolName :: string
  removalPolicy :: RemovalPolicy
  selfSignUpEnabled :: bool
  signInAliases :: SignInAliases
  autoVerify :: AutoVerifiedAttrs
  passwordPolicy :: PasswordPolicy
  accountRecovery :: AccountRecovery

record ResourceServerScope =
  scopeName :: string
  scopeDescription :: string

record UserPoolResourceServerOptions =
  "identifier" :: string
  scopes :: "ResourceServerScope list"

text \<open>The resource server object: the options it was made from and the pool it is under.\<close>

record UserPoolResourceServer = UserPoolResourceServerOptions +
  rs_userPool :: ref

record CognitoDomainOptions =
  domainPrefix :: string

record UserPoolDomainOptions =
  cognitoDomain :: "CognitoDomainOptions option"
  customDomain :: "string option"

record AuthFlow =
  adminUserPassword :: bool
  userPassword :: bool
  custom :: bool
  userSrp :: bool

record OAuthFlows =
  authorizationCodeGrant :: "bool option"
  implicitCodeGrant :: "bool option"
  clientCredentials :: "bool option"

datatype OAuthScope = OAuthScope string

record OAuthSettings =
  oAuth_scopes :: "OAuthScope list"
  flows :: OAuthFlows

record UserPoolClientProps =
  userPool :: ref
  authFlows :: AuthFlow
  oAuth :: OAuthSettings
  generateSecret :: bool
  supportedIdentityProviders :: "UserPoolClientIdentityProvider list"

record HttpUserPoolAuthorizer =
  pool :: ref
  userPoolClients :: "ref list"

record BundlingOptions =
  minify :: bool
  externalModules :: "string list"

text \<open>
  \<open>entry\<close> is the second argument of \<^verbatim>\<open>path.join(__dirname, ...)\<close>: the path of the
  handler's file relative to the directory of the stack's module.
\<close>

record NodejsFunctionProps =
  runtime :: Runtime
  handler :: string
  entry :: string
  bundling :: BundlingOptions

record HttpApiProps =
  apiName :: string
  description :: string
  defaultIntegration :: "ref option"

record HttpLambdaIntegration =
  integration_id :: string
  integration_handler :: ref

record AddRoutesOptions =
  integration :: HttpLambdaIntegration
  path :: string
  methods :: "HttpMethod list option"
  authorizer :: "ref option"
  authorizationScopes :: "string list option"

record HttpRouteKey =
  rk_method :: HttpMethod
  rk_path :: string

record HttpRoute =
  route_httpApi :: ref
  routeKey :: HttpRouteKey
  route_integration :: HttpLambdaIntegration
  route_authorizer :: "ref option"
  route_authorizationScopes :: "string list"

datatype OutputValue = RegionOf ref | UserPoolIdOf ref | UrlOf ref

subsection \<open>The construct tree\<close>

datatype Construct =
    StackC "StackProps option"
  | UserPoolC UserPoolProps
  | UserPoolResourceServerC UserPoolResourceServer
  | UserPoolDomainC UserPoolDomainOptions
  | UserPoolClientC UserPoolClientProps
  | HttpUserPoolAuthorizerC HttpUserPoolAuthorizer
  | NodejsFunctionC NodejsFunctionProps
  | HttpApiC HttpApiProps
  | HttpRouteC HttpRoute
  | CfnOutputC OutputValue

text \<open>
  Where an object hangs: under a construct outside the stack (the stack itself, under
  the \<^verbatim>\<open>scope\<close> it is given), under an object of the tree, or nowhere (the authorizer
  is built without a scope).
\<close>

datatype Parent = Outer nat | Inner ref | Unscoped

record Node =
  parent :: Parent
  node_id :: string
  construct :: Construct

type_synonym Tree = "Node list"

text \<open>\<^verbatim>\<open>new C(scope, id, props)\<close>: the new object's reference and the tree with it in.\<close>

definition new :: "Tree \<Rightarrow> Parent \<Rightarrow> string \<Rightarrow> Construct \<Rightarrow> ref \<times> Tree" where
  "new t p i c = (length t, t @ [\<lparr>parent = p, node_id = i, construct = c\<rparr>])"

subsection \<open>The library's factory methods\<close>

text \<open>
  Modelled from the spec: \<^verbatim>\<open>userPool.addResourceServer(id, options)\<close> and
  \<^verbatim>\<open>userPool.addDomain(id, options)\<close> are methods of the library. Section 3: the
  resource server is "owned by Identity Directory"; both methods create their object
  under the pool they are called on, from the options given.
\<close>

definition addResourceServer ::
  "Tree \<Rightarrow> ref \<Rightarrow> string \<Rightarrow> UserPoolResourceServerOptions \<Rightarrow> UserPoolResourceServer \<times> Tree" where
  "addResourceServer t this_pool i options =
     (let server = UserPoolResourceServerOptions.extend options
                     (UserPoolResourceServer.fields this_pool)
      in (server, snd (new t (Inner this_pool) i (UserPoolResourceServerC server))))"

definition addDomain :: "Tree \<Rightarrow> ref \<Rightarrow> string \<Rightarrow> UserPoolDomainOptions \<Rightarrow> ref \<times> Tree" where
  "addDomain t this_pool i options = new t (Inner this_pool) i (UserPoolDomainC options)"

text \<open>
  Modelled from the spec: \<^verbatim>\<open>cognito.OAuthScope.resourceServer\<close> is a function of the
  library, not of the source file. The spec's glossary gives what it builds: the resource
  identifier is "the namespace prefix under which scopes are registered, forming the full
  scope string identifier/scopeName".
\<close>

definition OAuthScope_resourceServer :: "UserPoolResourceServer \<Rightarrow> ResourceServerScope \<Rightarrow> OAuthScope" where
  "OAuthScope_resourceServer server scope = OAuthScope (identifier server @ ''/'' @ scopeName scope)"

text \<open>
  Modelled from the spec: \<^verbatim>\<open>httpApi.addRoutes\<close> is a method of the library. A route of
  the spec has one path, one HTTP method, one target, an authorizer and its required
  scopes: \<open>addRoutes\<close> creates, under the API, one route for each method listed (for
  \<open>ANY\<close> when none is), named by the method followed by the path.
\<close>

fun addRoutes_each :: "Tree \<Rightarrow> ref \<Rightarrow> AddRoutesOptions \<Rightarrow> HttpMethod list \<Rightarrow> ref list \<times> Tree" where
  "addRoutes_each t this_api options [] = ([], t)"
| "addRoutes_each t this_api options (m # ms) =
     (let (r, t) = new t (Inner this_api) (HttpMethod_string m @ path options)
                     (HttpRouteC
                        \<lparr>route_httpApi = this_api,
                         routeKey = \<lparr>rk_method = m, rk_path = path options\<rparr>,
                         route_integration = integration options,
                         route_authorizer = authorizer options,
                         route_authorizationScopes =
                           (case authorizationScopes options of None \<Rightarrow> [] | Some ss \<Rightarrow> ss)\<rparr>);
          (rs, t) = addRoutes_each t this_api options ms
      in (r # rs, t))"

definition addRoutes :: "Tree \<Rightarrow> ref \<Rightarrow> AddRoutesOptions \<Rightarrow> ref list \<times> Tree" where
  "addRoutes t this_api options =
     addRoutes_each t this_api options
       (case methods options of None \<Rightarrow> [ANY] | Some ms \<Rightarrow> ms)"

subsection \<open>The constructor\<close>

text \<open>
  The statements of the constructor in the source's order, one binding each; \<open>t\<close> is the
  tree so far. \<open>scope\<close> names the construct the stack is created under.
\<close>

definition CdkAwsApiGatewaySecurityStack :: "nat \<Rightarrow> string \<Rightarrow> StackProps option \<Rightarrow> Tree" where
  "CdkAwsApiGatewaySecurityStack scope i props =
     (let (this, t) = new [] (Outer scope) i (StackC props);
          (userPool, t) = new t (Inner this) ''userpool'' (UserPoolC
             \<lparr>userPoolName = ''my-user-pool'',
              removalPolicy = DESTROY,
              selfSignUpEnabled = True,
              signInAliases = \<lparr>username = None, email = Some True, phone = None,
                                preferredUsername = None\<rparr>,
              autoVerify = \<lparr>av_email = Some True, av_phone = None\<rparr>,
              passwordPolicy = \<lparr>minLength = 6, requireLowercase = False, requireDigits = False,
                                 requireUppercase = False, requireSymbols = False\<rparr>,
              accountRecovery = EMAIL_ONLY\<rparr>);
          publicScope = \<lparr>scopeName = ''public'', scopeDescription = ''Read-only access''\<rparr>;
          secureScope = \<lparr>scopeName = ''secure'', scopeDescription = ''Full access''\<rparr>;
          (resourceServer, t) = addResourceServer t userPool ''ResourceServer''
             \<lparr>identifier = ''resource'', scopes = [publicScope, secureScope]\<rparr>;
          (_, t) = addDomain t userPool ''CognitoDomain''
             \<lparr>cognitoDomain = Some \<lparr>domainPrefix = ''client-credentials-demo''\<rparr>,
              customDomain = None\<rparr>;
          (readOnlyClient, t) = new t (Inner this) ''read-only-client'' (UserPoolClientC
             \<lparr>userPool = userPool,
              authFlows = \<lparr>adminUserPassword = True, userPassword = True, custom = True,
                            userSrp = True\<rparr>,
              oAuth = \<lparr>oAuth_scopes = [OAuthScope_resourceServer resourceServer publicScope],
                        flows = \<lparr>authorizationCodeGrant = None, implicitCodeGrant = None,
                                  clientCredentials = Some True\<rparr>\<rparr>,
              generateSecret = True,
              supportedIdentityProviders = [COGNITO]\<rparr>);
          (fullAccessClient, t) = new t (Inner this) ''full-access-client'' (UserPoolClientC
             \<lparr>userPool = userPool,
              authFlows = \<lparr>adminUserPassword = True, userPassword = True, custom = True,
                            userSrp = True\<rparr>,
              oAuth = \<lparr>oAuth_scopes = [OAuthScope_resourceServer resourceServer publicScope,
                                        OAuthScope_resourceServer resourceServer secureScope],
                        flows = \<lparr>authorizationCodeGrant = None, implicitCodeGrant = None,
                                  clientCredentials = Some True\<rparr>\<rparr>,
              generateSecret = True,
              supportedIdentityProviders = [COGNITO]\<rparr>);
          (authorizer, t) = new t Unscoped ''user-pool-authorizer'' (HttpUserPoolAuthorizerC
             \<lparr>pool = userPool, userPoolClients = [readOnlyClient, fullAccessClient]\<rparr>);
          (secureLambda, t) = new t (Inner this) ''get-user-info-lambda'' (NodejsFunctionC
             \<lparr>runtime = NODEJS_14_X, handler = ''secure'', entry = ''/../src/secure/index.ts'',
              bundling = \<lparr>minify = True, externalModules = [''aws-sdk'']\<rparr>\<rparr>);
          (publicLambda, t) = new t (Inner this) ''get-app-info-lambda'' (NodejsFunctionC
             \<lparr>runtime = NODEJS_14_X, handler = ''app'', entry = ''/../src/public/index.ts'',
              bundling = \<lparr>minify = True, externalModules = [''aws-sdk'']\<rparr>\<rparr>);
          (httpApi, t) = new t (Inner this) ''apigwv2-demo'' (HttpApiC
             \<lparr>apiName = ''http-api-demo'', description = ''HTTP API example'',
              defaultIntegration = None\<rparr>);
          (_, t) = addRoutes t httpApi
             \<lparr>integration = \<lparr>integration_id = ''secure-fn-integration'',
                              integration_handler = secureLambda\<rparr>,
              path = ''/api/secure'',
              methods = Some [GET],
              authorizer = Some authorizer,
              authorizationScopes = Some [''resource/secure'']\<rparr>;
          (_, t) = addRoutes t httpApi
             \<lparr>integration = \<lparr>integration_id = ''public-fn-integration'',
                              integration_handler = publicLambda\<rparr>,
              path = ''/api/public'',
              methods = Some [GET],
              authorizer = Some authorizer,
              authorizationScopes = Some [''resource/public'']\<rparr>;
          (_, t) = new t (Inner this) ''region'' (CfnOutputC (RegionOf this));
          (_, t) = new t (Inner this) ''userPoolId'' (CfnOutputC (UserPoolIdOf userPool));
          (_, t) = new t (Inner this) ''apiUrl'' (CfnOutputC (UrlOf httpApi))
      in t)"

subsection \<open>Reading the tree\<close>

text \<open>
  The stack is the first object of its own tree. \<open>lookup\<close> follows a reference;
  \<open>tryFindChild\<close> finds the object with a given construct id directly under a given
  object. The remaining functions list the objects of one class, each with its reference,
  in the order of their creation.
\<close>

definition root :: ref where
  "root = 0"

definition objects :: "Tree \<Rightarrow> (ref \<times> Node) list" where
  "objects t = enumerate 0 t"

definition lookup :: "Tree \<Rightarrow> ref \<Rightarrow> Construct option" where
  "lookup t r = (if r < length t then Some (construct (t ! r)) else None)"

definition tryFindChild :: "Tree \<Rightarrow> ref \<Rightarrow> string \<Rightarrow> ref option" where
  "tryFindChild t p i =
     map_option fst (find (\<lambda>(r, n). parent n = Inner p \<and> node_id n = i) (objects t))"

definition select :: "(Construct \<Rightarrow> 'a option) \<Rightarrow> Tree \<Rightarrow> (ref \<times> 'a) list" where
  "select f t = List.map_filter (\<lambda>(r, n). map_option (Pair r) (f (construct n))) (objects t)"

definition userPools :: "Tree \<Rightarrow> (ref \<times> UserPoolProps) list" where
  "userPools = select (\<lambda>c. case c of UserPoolC x \<Rightarrow> Some x | _ \<Rightarrow> None)"

definition resourceServers :: "Tree \<Rightarrow> (ref \<times> UserPoolResourceServer) list" where
  "resourceServers = select (\<lambda>c. case c of UserPoolResourceServerC x \<Rightarrow> Some x | _ \<Rightarrow> None)"

definition domains :: "Tree \<Rightarrow> (ref \<times> UserPoolDomainOptions) list" where
  "domains = select (\<lambda>c. case c of UserPoolDomainC x \<Rightarrow> Some x | _ \<Rightarrow> None)"

definition clients :: "Tree \<Rightarrow> (ref \<times> UserPoolClientProps) list" where
  "clients = select (\<lambda>c. case c of UserPoolClientC x \<Rightarrow> Some x | _ \<Rightarrow> None)"

definition authorizers :: "Tree \<Rightarrow> (ref \<times> HttpUserPoolAuthorizer) list" where
  "authorizers = select (\<lambda>c. case c of HttpUserPoolAuthorizerC x \<Rightarrow> Some x | _ \<Rightarrow> None)"

definition lambdaFunctions :: "Tree \<Rightarrow> (ref \<times> NodejsFunctionProps) list" where
  "lambdaFunctions = select (\<lambda>c. case c of NodejsFunctionC x \<Rightarrow> Some x | _ \<Rightarrow> None)"

definition httpApis :: "Tree \<Rightarrow> (ref \<times> HttpApiProps) list" where
  "httpApis = select (\<lambda>c. case c of HttpApiC x \<Rightarrow> Some x | _ \<Rightarrow> None)"

definition routes :: "Tree \<Rightarrow> (ref \<times> HttpRoute) list" where
  "routes = select (\<lambda>c. case c of HttpRouteC x \<Rightarrow> Some x | _ \<Rightarrow> None)"

text \<open>
  The scopes a resource server declares, by their full names (as
  \<open>OAuthScope_resourceServer\<close> builds them and as a route names them).
\<close>

definition declaredScopes :: "UserPoolResourceServer \<Rightarrow> OAuthScope list" where
  "declaredScopes server = map (OAuthScope_resourceServer server) (scopes server)"

fun scopeString :: "OAuthScope \<Rightarrow> string" where
  "scopeString (OAuthScope s) = s"

section \<open>The gateway at request time\<close>

text \<open>
  The source file only declares the authorizer and the routes; what happens to a request
  is decided by the managed gateway, whose code is not part of the repository. The
  definitions of this section follow the spec's description of it.
\<close>

text \<open>
  A bearer token as the gateway sees it after checking its signature: the user pool that
  issued it, the client it was issued to, and the scopes it carries.
\<close>

record Token =
  issuer :: ref
  client_id :: ref
  granted_scopes :: "string list"

record Request =
  req_method :: HttpMethod
  req_path :: string
  bearer :: "Token option"

datatype Response = Invoked ref | Rejected | NotFound

text \<open>
  Modelled from the spec: the token endpoint of the identity service is not in the
  repository. Section 6: "consumers present a client identifier and secret and receive a
  bearer token scoped to the client's granted scopes", through the client-credentials
  grant.
\<close>

definition issueToken :: "Tree \<Rightarrow> ref \<Rightarrow> Token option" where
  "issueToken t c =
     (case lookup t c of
        Some (UserPoolClientC cp) \<Rightarrow>
          if clientCredentials (flows (oAuth cp)) = Some True
          then Some \<lparr>issuer = userPool cp, client_id = c,
                      granted_scopes = map scopeString (oAuth_scopes (oAuth cp))\<rparr>
          else None
      | _ \<Rightarrow> None)"

text \<open>
  Modelled from the spec: the authorizer's decision is taken by the managed gateway, not
  by code of the repository. Section 4.4: "given an incoming bearer token and a route's
  required scope, accept the request only if the token was issued by the Identity
  Directory to one of the two registered Clients AND the token's granted scopes include
  the route's required scope"; section 8: a request with no token is rejected. The
  registered clients are the authorizer's \<open>userPoolClients\<close>, the Identity Directory is
  its \<open>pool\<close>, and the required scopes are the route's \<open>authorizationScopes\<close>.
\<close>

definition authorizes :: "HttpUserPoolAuthorizer \<Rightarrow> string list \<Rightarrow> Token option \<Rightarrow> bool" where
  "authorizes a required b =
     (case b of
        None \<Rightarrow> False
      | Some k \<Rightarrow> issuer k = pool a \<and> client_id k \<in> set (userPoolClients a)
                  \<and> set required \<subseteq> set (granted_scopes k))"

text \<open>
  Modelled from the spec: routing is done by the managed gateway. Section 2: "the Front
  Door receives a request, invokes the Authorizer, which validates the token and its
  scope against the requested route before invoking the corresponding entry point". A
  route answers the requests of its method (of every method, for \<open>ANY\<close>) at its path.
\<close>

definition route_matches :: "HttpRouteKey \<Rightarrow> Request \<Rightarrow> bool" where
  "route_matches k rq =
     ((rk_method k = ANY \<or> rk_method k = req_method rq) \<and> rk_path k = req_path rq)"

definition handle_request :: "Tree \<Rightarrow> Request \<Rightarrow> Response" where
  "handle_request t rq =
     (case find (\<lambda>(r, route). route_matches (routeKey route) rq) (routes t) of
        None \<Rightarrow> NotFound
      | Some (r, route) \<Rightarrow>
          (case route_authorizer route of
             None \<Rightarrow> Invoked (integration_handler (route_integration route))
           | Some a \<Rightarrow>
               (case lookup t a of
                  Some (HttpUserPoolAuthorizerC auth) \<Rightarrow>
                    if authorizes auth (route_authorizationScopes route) (bearer rq)
                    then Invoked (integration_handler (route_integration route))
                    else Rejected
                | _ \<Rightarrow> Rejected)))"

section \<open>The stack, object by object\<close>

text \<open>
  The objects of each class in the tree the constructor builds, for every scope, construct
  id and stack properties it is called with.
\<close>

lemmas build = CdkAwsApiGatewaySecurityStack_def new_def addResourceServer_def addDomain_def
  addRoutes_def OAuthScope_resourceServer_def UserPoolResourceServerOptions.defs
  UserPoolResourceServer.defs Let_def

lemmas reading = select_def objects_def

lemma userPools_stack:
  "userPools (CdkAwsApiGatewaySecurityStack scope i props) =
     [(1, \<lparr>userPoolName = ''my-user-pool'',
           removalPolicy = DESTROY,
           selfSignUpEnabled = True,
           signInAliases = \<lparr>username = None, email = Some True, phone = None,
                             preferredUsername = None\<rparr>,
           autoVerify = \<lparr>av_email = Some True, av_phone = None\<rparr>,
           passwordPolicy = \<lparr>minLength = 6, requireLowercase = False, requireDigits = False,
                              requireUppercase = False, requireSymbols = False\<rparr>,
           accountRecovery = EMAIL_ONLY\<rparr>)]"
  by (simp add: build reading userPools_def)

lemma resourceServers_stack:
  "resourceServers (CdkAwsApiGatewaySecurityStack scope i props) =
     [(2, \<lparr>identifier = ''resource'',
           scopes = [\<lparr>scopeName = ''public'', scopeDescription = ''Read-only access''\<rparr>,
                     \<lparr>scopeName = ''secure'', scopeDescription = ''Full access''\<rparr>],
           rs_userPool = 1\<rparr>)]"
  by (simp add: build reading resourceServers_def)

lemma domains_stack:
  "domains (CdkAwsApiGatewaySecurityStack scope i props) =
     [(3, \<lparr>cognitoDomain = Some \<lparr>domainPrefix = ''client-credentials-demo''\<rparr>,
           customDomain = None\<rparr>)]"
  by (simp add: build reading domains_def)

lemma clients_stack:
  "clients (CdkAwsApiGatewaySecurityStack scope i props) =
     [(4, \<lparr>userPool = 1,
           authFlows = \<lparr>adminUserPassword = True, userPassword = True, custom = True,
                         userSrp = True\<rparr>,
           oAuth = \<lparr>oAuth_scopes = [OAuthScope ''resource/public''],
                     flows = \<lparr>authorizationCodeGrant = None, implicitCodeGrant = None,
                               clientCredentials = Some True\<rparr>\<rparr>,
           generateSecret = True,
           supportedIdentityProviders = [COGNITO]\<rparr>),
      (5, \<lparr>userPool = 1,
           authFlows = \<lparr>adminUserPassword = True, userPassword = True, custom = True,
                         userSrp = True\<rparr>,
           oAuth = \<lparr>oAuth_scopes = [OAuthScope ''resource/public'',
                                     OAuthScope ''resource/secure''],
                     flows = \<lparr>authorizationCodeGrant = None, implicitCodeGrant = None,
                               clientCredentials = Some True\<rparr>\<rparr>,
           generateSecret = True,
           supportedIdentityProviders = [COGNITO]\<rparr>)]"
  by (simp add: build reading clients_def)

lemma authorizers_stack:
  "authorizers (CdkAwsApiGatewaySecurityStack scope i props) =
     [(6, \<lparr>pool = 1, userPoolClients = [4, 5]\<rparr>)]"
  by (simp add: build reading authorizers_def)

lemma lambdaFunctions_stack:
  "lambdaFunctions (CdkAwsApiGatewaySecurityStack scope i props) =
     [(7, \<lparr>runtime = NODEJS_14_X, handler = ''secure'', entry = ''/../src/secure/index.ts'',
           bundling = \<lparr>minify = True, externalModules = [''aws-sdk'']\<rparr>\<rparr>),
      (8, \<lparr>runtime = NODEJS_14_X, handler = ''app'', entry = ''/../src/public/index.ts'',
           bundling = \<lparr>minify = True, externalModules = [''aws-sdk'']\<rparr>\<rparr>)]"
  by (simp add: build reading lambdaFunctions_def)

lemma httpApis_stack:
  "httpApis (CdkAwsApiGatewaySecurityStack scope i props) =
     [(9, \<lparr>apiName = ''http-api-demo'', description = ''HTTP API example'',
           defaultIntegration = None\<rparr>)]"
  by (simp add: build reading httpApis_def)

lemma routes_stack:
  "routes (CdkAwsApiGatewaySecurityStack scope i props) =
     [(10, \<lparr>route_httpApi = 9,
            routeKey = \<lparr>rk_method = GET, rk_path = ''/api/secure''\<rparr>,
            route_integration = \<lparr>integration_id = ''secure-fn-integration'',
                                  integration_handler = 7\<rparr>,
            route_authorizer = Some 6,
            route_authorizationScopes = [''resource/secure'']\<rparr>),
      (11, \<lparr>route_httpApi = 9,
            routeKey = \<lparr>rk_method = GET, rk_path = ''/api/public''\<rparr>,
            route_integration = \<lparr>integration_id = ''public-fn-integration'',
                                  integration_handler = 8\<rparr>,
            route_authorizer = Some 6,
            route_authorizationScopes = [''resource/public'']\<rparr>)]"
  by (simp add: build reading routes_def)

lemma children_stack:
  "tryFindChild (CdkAwsApiGatewaySecurityStack scope i props) root ''read-only-client'' = Some 4"
  "tryFindChild (CdkAwsApiGatewaySecurityStack scope i props) root ''full-access-client'' = Some 5"
  "tryFindChild (CdkAwsApiGatewaySecurityStack scope i props) root ''get-user-info-lambda'' = Some 7"
  "tryFindChild (CdkAwsApiGatewaySecurityStack scope i props) root ''get-app-info-lambda'' = Some 8"
  by (simp_all add: build objects_def tryFindChild_def root_def)

lemma lookup_authorizer_stack:
  "lookup (CdkAwsApiGatewaySecurityStack scope i props) 6 =
     Some (HttpUserPoolAuthorizerC \<lparr>pool = 1, userPoolClients = [4, 5]\<rparr>)"
  by (simp add: build lookup_def)

lemma lookup_clients_stack:
  "lookup (CdkAwsApiGatewaySecurityStack scope i props) 4 =
     Some (UserPoolClientC
       \<lparr>userPool = 1,
        authFlows = \<lparr>adminUserPassword = True, userPassword = True, custom = True,
                      userSrp = True\<rparr>,
        oAuth = \<lparr>oAuth_scopes = [OAuthScope ''resource/public''],
                  flows = \<lparr>authorizationCodeGrant = None, implicitCodeGrant = None,
                            clientCredentials = Some True\<rparr>\<rparr>,
        generateSecret = True,
        supportedIdentityProviders = [COGNITO]\<rparr>)"
  "lookup (CdkAwsApiGatewaySecurityStack scope i props) 5 =
     Some (UserPoolClientC
       \<lparr>userPool = 1,
        authFlows = \<lparr>adminUserPassword = True, userPassword = True, custom = True,
                      userSrp = True\<rparr>,
        oAuth = \<lparr>oAuth_scopes = [OAuthScope ''resource/public'',
                                  OAuthScope ''resource/secure''],
                  flows = \<lparr>authorizationCodeGrant = None, implicitCodeGrant = None,
                            clientCredentials = Some True\<rparr>\<rparr>,
        generateSecret = True,
        supportedIdentityProviders = [COGNITO]\<rparr>)"
  by (simp_all add: build lookup_def)

lemma handle_request_stack:
  "handle_request (CdkAwsApiGatewaySecurityStack scope i props) rq =
     (if req_method rq = GET \<and> req_path rq = ''/api/secure'' then
        (if authorizes \<lparr>pool = 1, userPoolClients = [4, 5]\<rparr> [''resource/secure''] (bearer rq)
         then Invoked 7 else Rejected)
      else if req_method rq = GET \<and> req_path rq = ''/api/public'' then
        (if authorizes \<lparr>pool = 1, userPoolClients = [4, 5]\<rparr> [''resource/public''] (bearer rq)
         then Invoked 8 else Rejected)
      else NotFound)"
  by (simp add: handle_request_def routes_stack route_matches_def lookup_authorizer_stack)

section \<open>Properties of the stack\<close>

text \<open>
  C1. At either route the gateway lets a request through to the entry point only if it
  carries a token that was issued by the stack's user pool to the read-only client or to
  the full-access client and whose scopes include the scopes the route requires
  (\<open>resource/secure\<close> at \<open>/api/secure\<close>, \<open>resource/public\<close> at \<open>/api/public\<close>).
  In particular a token that carries the public scope only is rejected at
  \<open>/api/secure\<close>, and so is the token the read-only client is issued; a request
  without a token is rejected at both routes; a token of a client that is neither of the
  two is rejected at both routes.
\<close>

theorem authorizer_accepts_only_registered_clients_with_scope:
  "(handle_request (CdkAwsApiGatewaySecurityStack scope i props)
      \<lparr>req_method = m, req_path = p, bearer = b\<rparr> = Invoked f \<longrightarrow>
      (\<exists>k ro fa.
         b = Some k
       \<and> map fst (userPools (CdkAwsApiGatewaySecurityStack scope i props)) = [issuer k]
       \<and> tryFindChild (CdkAwsApiGatewaySecurityStack scope i props) root ''read-only-client''
           = Some ro
       \<and> tryFindChild (CdkAwsApiGatewaySecurityStack scope i props) root ''full-access-client''
           = Some fa
       \<and> (client_id k = ro \<or> client_id k = fa)
       \<and> (\<exists>(x, route) \<in> set (routes (CdkAwsApiGatewaySecurityStack scope i props)).
             rk_path (routeKey route) = p
           \<and> set (route_authorizationScopes route) \<subseteq> set (granted_scopes k))
       \<and> (p = ''/api/secure'' \<and> ''resource/secure'' \<in> set (granted_scopes k)
          \<or> p = ''/api/public'' \<and> ''resource/public'' \<in> set (granted_scopes k))))
   \<and> (granted_scopes k' = [''resource/public''] \<longrightarrow>
        handle_request (CdkAwsApiGatewaySecurityStack scope i props)
          \<lparr>req_method = GET, req_path = ''/api/secure'', bearer = Some k'\<rparr> = Rejected)
   \<and> (\<exists>ro k. tryFindChild (CdkAwsApiGatewaySecurityStack scope i props) root ''read-only-client''
                 = Some ro
          \<and> issueToken (CdkAwsApiGatewaySecurityStack scope i props) ro = Some k
          \<and> granted_scopes k = [''resource/public'']
          \<and> handle_request (CdkAwsApiGatewaySecurityStack scope i props)
               \<lparr>req_method = GET, req_path = ''/api/secure'', bearer = Some k\<rparr> = Rejected)
   \<and> handle_request (CdkAwsApiGatewaySecurityStack scope i props)
        \<lparr>req_method = GET, req_path = ''/api/secure'', bearer = None\<rparr> = Rejected
   \<and> handle_request (CdkAwsApiGatewaySecurityStack scope i props)
        \<lparr>req_method = GET, req_path = ''/api/public'', bearer = None\<rparr> = Rejected
   \<and> (tryFindChild (CdkAwsApiGatewaySecurityStack scope i props) root ''read-only-client''
         \<noteq> Some (client_id u)
      \<and> tryFindChild (CdkAwsApiGatewaySecurityStack scope i props) root ''full-access-client''
         \<noteq> Some (client_id u) \<longrightarrow>
        handle_request (CdkAwsApiGatewaySecurityStack scope i props)
          \<lparr>req_method = GET, req_path = ''/api/secure'', bearer = Some u\<rparr> = Rejected
      \<and> handle_request (CdkAwsApiGatewaySecurityStack scope i props)
          \<lparr>req_method = GET, req_path = ''/api/public'', bearer = Some u\<rparr> = Rejected)"
  by (auto simp add: handle_request_stack authorizes_def userPools_stack children_stack
      routes_stack issueToken_def lookup_clients_stack split: option.splits if_splits)

theorem authorizer_accepts_only_registered_clients_with_scope_witness:
  "handle_request (CdkAwsApiGatewaySecurityStack 0 ''Demo'' None)
      \<lparr>req_method = GET, req_path = ''/api/secure'',
       bearer = Some \<lparr>issuer = 1, client_id = 5,
                       granted_scopes = [''resource/public'', ''resource/secure'']\<rparr>\<rparr>
     = Invoked 7
   \<and> issueToken (CdkAwsApiGatewaySecurityStack 0 ''Demo'' None) 5
       = Some \<lparr>issuer = 1, client_id = 5,
               granted_scopes = [''resource/public'', ''resource/secure'']\<rparr>
   \<and> tryFindChild (CdkAwsApiGatewaySecurityStack 0 ''Demo'' None) root ''full-access-client''
       = Some 5
   \<and> map fst (userPools (CdkAwsApiGatewaySecurityStack 0 ''Demo'' None)) = [1]
   \<and> handle_request (CdkAwsApiGatewaySecurityStack 0 ''Demo'' None)
      \<lparr>req_method = GET, req_path = ''/api/secure'',
       bearer = Some \<lparr>issuer = 1, client_id = 4, granted_scopes = [''resource/public'']\<rparr>\<rparr>
     = Rejected
   \<and> tryFindChild (CdkAwsApiGatewaySecurityStack 0 ''Demo'' None) root ''read-only-client''
       \<noteq> Some 12
   \<and> tryFindChild (CdkAwsApiGatewaySecurityStack 0 ''Demo'' None) root ''full-access-client''
       \<noteq> Some 12
   \<and> handle_request (CdkAwsApiGatewaySecurityStack 0 ''Demo'' None)
      \<lparr>req_method = GET, req_path = ''/api/public'',
       bearer = Some \<lparr>issuer = 1, client_id = 12, granted_scopes = [''resource/public'']\<rparr>\<rparr>
     = Rejected"
  using authorizer_accepts_only_registered_clients_with_scope
    [of 0 "''Demo''" None GET "''/api/secure''"
        "Some \<lparr>issuer = 1, client_id = 5,
                granted_scopes = [''resource/public'', ''resource/secure'']\<rparr>" 7
        "\<lparr>issuer = 1, client_id = 4, granted_scopes = [''resource/public'']\<rparr>"
        "\<lparr>issuer = 1, client_id = 12, granted_scopes = [''resource/public'']\<rparr>"]
  by (simp add: handle_request_stack authorizes_def userPools_stack children_stack
      issueToken_def lookup_clients_stack)

text \<open>
  C2. The route at \<open>/api/secure\<close> requires the scope \<open>resource/secure\<close> and invokes
  the secure entry point (the function \<open>get-user-info-lambda\<close>, handler \<open>secure\<close>);
  the route at \<open>/api/public\<close> requires the scope \<open>resource/public\<close> and invokes
  the public entry point (the function \<open>get-app-info-lambda\<close>, handler \<open>app\<close>). Both
  routes refer to the same authorizer object, the only one of the stack.
\<close>

theorem routes_bound_to_scope_and_entry_point:
  "\<exists>a auth sf pf sfn pfn api rs rp.
     authorizers (CdkAwsApiGatewaySecurityStack scope i props) = [(a, auth)]
   \<and> lookup (CdkAwsApiGatewaySecurityStack scope i props) a = Some (HttpUserPoolAuthorizerC auth)
   \<and> tryFindChild (CdkAwsApiGatewaySecurityStack scope i props) root ''get-user-info-lambda''
       = Some sf
   \<and> tryFindChild (CdkAwsApiGatewaySecurityStack scope i props) root ''get-app-info-lambda''
       = Some pf
   \<and> lambdaFunctions (CdkAwsApiGatewaySecurityStack scope i props) = [(sf, sfn), (pf, pfn)]
   \<and> handler sfn = ''secure'' \<and> entry sfn = ''/../src/secure/index.ts''
   \<and> handler pfn = ''app'' \<and> entry pfn = ''/../src/public/index.ts''
   \<and> routes (CdkAwsApiGatewaySecurityStack scope i props) =
       [(rs, \<lparr>route_httpApi = api,
               routeKey = \<lparr>rk_method = GET, rk_path = ''/api/secure''\<rparr>,
               route_integration = \<lparr>integration_id = ''secure-fn-integration'',
                                     integration_handler = sf\<rparr>,
               route_authorizer = Some a,
               route_authorizationScopes = [''resource/secure'']\<rparr>),
        (rp, \<lparr>route_httpApi = api,
               routeKey = \<lparr>rk_method = GET, rk_path = ''/api/public''\<rparr>,
               route_integration = \<lparr>integration_id = ''public-fn-integration'',
                                     integration_handler = pf\<rparr>,
               route_authorizer = Some a,
               route_authorizationScopes = [''resource/public'']\<rparr>)]"
  by (simp add: authorizers_stack lookup_authorizer_stack children_stack lambdaFunctions_stack
      routes_stack)

text \<open>
  C3. The stack has two clients, and the scopes granted to each of them are among the
  scopes its resource server declares; the resource server has the identifier
  \<open>resource\<close> and declares the two scopes \<open>public\<close> and \<open>secure\<close>, no other.
\<close>

theorem client_scopes_subset_of_declared:
  "\<exists>r server.
     resourceServers (CdkAwsApiGatewaySecurityStack scope i props) = [(r, server)]
   \<and> identifier server = ''resource''
   \<and> map scopeName (scopes server) = [''public'', ''secure'']
   \<and> length (clients (CdkAwsApiGatewaySecurityStack scope i props)) = 2
   \<and> (\<forall>(c, cp) \<in> set (clients (CdkAwsApiGatewaySecurityStack scope i props)).
         set (oAuth_scopes (oAuth cp)) \<subseteq> set (declaredScopes server))"
  by (simp add: resourceServers_stack clients_stack declaredScopes_def
      OAuthScope_resourceServer_def)

theorem client_scopes_subset_of_declared_witness:
  "map (\<lambda>(c, cp). oAuth_scopes (oAuth cp)) (clients (CdkAwsApiGatewaySecurityStack 0 ''Demo'' None))
     = [[OAuthScope ''resource/public''],
        [OAuthScope ''resource/public'', OAuthScope ''resource/secure'']]
   \<and> map (\<lambda>(r, server). declaredScopes server)
         (resourceServers (CdkAwsApiGatewaySecurityStack 0 ''Demo'' None))
     = [[OAuthScope ''resource/public'', OAuthScope ''resource/secure'']]"
  using client_scopes_subset_of_declared [of 0 "''Demo''" None]
  by (simp add: resourceServers_stack clients_stack declaredScopes_def
      OAuthScope_resourceServer_def)

text \<open>
  C4. The scopes granted to the full-access client are a strict superset of those granted
  to the read-only client: the read-only client is granted the public scope only, the
  full-access client the public and the secure scope.
\<close>

theorem full_access_strict_superset:
  "\<exists>ro fa rp fp.
     tryFindChild (CdkAwsApiGatewaySecurityStack scope i props) root ''read-only-client'' = Some ro
   \<and> tryFindChild (CdkAwsApiGatewaySecurityStack scope i props) root ''full-access-client'' = Some fa
   \<and> clients (CdkAwsApiGatewaySecurityStack scope i props) = [(ro, rp), (fa, fp)]
   \<and> oAuth_scopes (oAuth rp) = [OAuthScope ''resource/public'']
   \<and> oAuth_scopes (oAuth fp) = [OAuthScope ''resource/public'', OAuthScope ''resource/secure'']
   \<and> set (oAuth_scopes (oAuth rp)) \<subset> set (oAuth_scopes (oAuth fp))"
  by (auto simp add: children_stack clients_stack)

text \<open>
  C5. The stack has one HTTP API, without a default integration, and the API has exactly
  two routes: \<open>GET /api/secure\<close> and \<open>GET /api/public\<close>. Their paths are distinct.
\<close>

theorem exactly_two_GET_routes:
  "\<exists>a api.
     httpApis (CdkAwsApiGatewaySecurityStack scope i props) = [(a, api)]
   \<and> defaultIntegration api = None
   \<and> map (\<lambda>(r, route). (route_httpApi route, routeKey route))
        (routes (CdkAwsApiGatewaySecurityStack scope i props))
       = [(a, \<lparr>rk_method = GET, rk_path = ''/api/secure''\<rparr>),
          (a, \<lparr>rk_method = GET, rk_path = ''/api/public''\<rparr>)]
   \<and> length (routes (CdkAwsApiGatewaySecurityStack scope i props)) = 2
   \<and> distinct (map (\<lambda>(r, route). rk_path (routeKey route))
        (routes (CdkAwsApiGatewaySecurityStack scope i props)))"
  by (simp add: httpApis_stack routes_stack)

text \<open>
  C6. Every route of the stack requires exactly one scope, and that scope is the resource
  server's identifier, a slash, and the name of a scope the resource server declares
  (identifier \<open>resource\<close>, scopes \<open>public\<close> and \<open>secure\<close>): no route refers to a
  scope that does not exist.
\<close>

theorem route_scopes_declared:
  "\<exists>r server.
     resourceServers (CdkAwsApiGatewaySecurityStack scope i props) = [(r, server)]
   \<and> identifier server = ''resource''
   \<and> map scopeName (scopes server) = [''public'', ''secure'']
   \<and> (\<forall>(x, route) \<in> set (routes (CdkAwsApiGatewaySecurityStack scope i props)).
         \<exists>s \<in> set (scopes server).
           route_authorizationScopes route = [identifier server @ ''/'' @ scopeName s])"
  by (simp add: resourceServers_stack routes_stack)

theorem route_scopes_declared_witness:
  "map (\<lambda>(x, route). route_authorizationScopes route)
       (routes (CdkAwsApiGatewaySecurityStack 0 ''Demo'' None))
     = [[''resource/secure''], [''resource/public'']]
   \<and> map (\<lambda>(r, server). map (\<lambda>s. identifier server @ ''/'' @ scopeName s) (scopes server))
         (resourceServers (CdkAwsApiGatewaySecurityStack 0 ''Demo'' None))
     = [[''resource/public'', ''resource/secure'']]"
  using route_scopes_declared [of 0 "''Demo''" None]
  by (simp add: resourceServers_stack routes_stack)

text \<open>
  C7. The two client declarations agree in every property but the granted scopes: putting
  the full-access client's scopes into the read-only client's properties gives the
  full-access client's properties. Both enable the same four authentication flows, both
  enable the client-credentials grant and no other OAuth flow, both generate a secret,
  both list Cognito as their only identity provider, and both belong to the same pool.
\<close>

theorem clients_differ_only_in_scopes:
  "\<exists>ro fa rp fp.
     tryFindChild (CdkAwsApiGatewaySecurityStack scope i props) root ''read-only-client'' = Some ro
   \<and> tryFindChild (CdkAwsApiGatewaySecurityStack scope i props) root ''full-access-client'' = Some fa
   \<and> clients (CdkAwsApiGatewaySecurityStack scope i props) = [(ro, rp), (fa, fp)]
   \<and> rp\<lparr>oAuth := (oAuth rp)\<lparr>oAuth_scopes := oAuth_scopes (oAuth fp)\<rparr>\<rparr> = fp
   \<and> authFlows rp = \<lparr>adminUserPassword = True, userPassword = True, custom = True,
                       userSrp = True\<rparr>
   \<and> authFlows fp = authFlows rp
   \<and> flows (oAuth rp) = \<lparr>authorizationCodeGrant = None, implicitCodeGrant = None,
                            clientCredentials = Some True\<rparr>
   \<and> flows (oAuth fp) = flows (oAuth rp)
   \<and> generateSecret rp = True \<and> generateSecret fp = True
   \<and> supportedIdentityProviders rp = [COGNITO] \<and> supportedIdentityProviders fp = [COGNITO]
   \<and> userPool rp = userPool fp"
  by (simp add: children_stack clients_stack)

text \<open>
  C8. The user pool is provisioned with self-service sign-up enabled, email as the
  sign-in alias, automatic verification of the email, a password policy of minimum
  length 6 that requires no lowercase, uppercase, digit or symbol character, and account
  recovery by email only. The stack has one user pool.
\<close>

theorem userPool_provisioning:
  "\<exists>r up. userPools (CdkAwsApiGatewaySecurityStack scope i props) = [(r, up)]
     \<and> selfSignUpEnabled up = True
     \<and> signInAliases up = \<lparr>username = None, email = Some True, phone = None,
                             preferredUsername = None\<rparr>
     \<and> autoVerify up = \<lparr>av_email = Some True, av_phone = None\<rparr>
     \<and> minLength (passwordPolicy up) = 6
     \<and> requireLowercase (passwordPolicy up) = False
     \<and> requireUppercase (passwordPolicy up) = False
     \<and> requireDigits (passwordPolicy up) = False
     \<and> requireSymbols (passwordPolicy up) = False
     \<and> accountRecovery up = EMAIL_ONLY"
  by (simp add: userPools_stack)

text \<open>
  C9. For any two instantiations of the stack, whatever their scopes, construct ids and
  stack properties, the user-pool name is the constant \<open>my-user-pool\<close> and the prefix
  of the Cognito domain is the constant \<open>client-credentials-demo\<close>: the two
  instantiations get the same names.
\<close>

theorem global_names_constant:
  "map (\<lambda>(r, up). userPoolName up) (userPools (CdkAwsApiGatewaySecurityStack scope i props))
     = [''my-user-pool'']
   \<and> map (\<lambda>(r, up). userPoolName up) (userPools (CdkAwsApiGatewaySecurityStack scope' i' props'))
     = map (\<lambda>(r, up). userPoolName up) (userPools (CdkAwsApiGatewaySecurityStack scope i props))
   \<and> map (\<lambda>(r, d). map_option domainPrefix (cognitoDomain d))
         (domains (CdkAwsApiGatewaySecurityStack scope i props))
     = [Some ''client-credentials-demo'']
   \<and> map (\<lambda>(r, d). map_option domainPrefix (cognitoDomain d))
         (domains (CdkAwsApiGatewaySecurityStack scope' i' props'))
     = map (\<lambda>(r, d). map_option domainPrefix (cognitoDomain d))
         (domains (CdkAwsApiGatewaySecurityStack scope i props))"
  by (simp add: userPools_stack domains_stack)

text \<open>
  C10. For every instantiation of the stack, its user pool carries the removal policy
  \<open>DESTROY\<close> (and not \<open>RETAIN\<close>).
\<close>

theorem userPool_removalPolicy_DESTROY:
  "\<exists>r up. userPools (CdkAwsApiGatewaySecurityStack scope i props) = [(r, up)]
     \<and> removalPolicy up = DESTROY"
  by (simp add: userPools_stack)

end
